theory Spec2Isabelle
  imports Main "HOL-Library.Word"
begin

section \<open>The PPAPI module and instance dispatch shim (trunk/cpp/module.cc)\<close>

subsection \<open>Data of the plugin ABI\<close>

text \<open>
  Modelled from the spec: the C headers of the plugin ABI (pp_instance.h, pp_module.h,
  pp_resource.h, pp_var.h, pp_event.h, pp_rect.h, ppp_printing.h) are not part of the
  sources. The spec calls an instance handle an opaque handle; module.cc only uses such
  handles as map keys and passes the other values through, so handles are integers and
  the payloads it never inspects are opaque numbers. Of \<open>PP_PrintSettings\<close> the
  code reads the field \<open>format\<close> only; the record's extension stands for the rest.
  A pointer argument that the browser passes in and the callback dereferences or hands
  on (\<open>event\<close>, \<open>position\<close>, \<open>clip\<close>, \<open>print_settings\<close>, \<open>argn\<close>, \<open>argv\<close>,
  \<open>page_ranges\<close>, \<open>interface_name\<close>) points to a valid object by the ABI and is
  represented by that object.
\<close>

type_synonym PP_Instance = int
type_synonym PP_Module = int
type_synonym PP_Resource = int
type_synonym PP_Event = nat
type_synonym PP_Rect = nat
type_synonym PP_PrintOutputFormat = nat
type_synonym PP_PrintPageNumberRange = nat
type_synonym uint32_t = "32 word"
type_synonym int32_t = "32 word"

text \<open>An address of an object; a pointer that may be \<open>NULL\<close> is an \<open>addr option\<close>.\<close>

type_synonym addr = nat

record PP_PrintSettings =
  format :: PP_PrintOutputFormat

text \<open>
  Modelled from the spec: var.h is not part of the sources. \<open>Var().Detach()\<close> is the
  \<open>PP_Var\<close> of a default-constructed \<open>Var\<close>, which the specification calls the
  undefined \<open>Var\<close>; every other \<open>PP_Var\<close> is opaque here, and \<open>Detach()\<close> hands the
  value over as it is.
\<close>

datatype PP_Var = Var_undefined | Var_value nat

text \<open>
  Modelled from the spec: resource.h is not part of the sources.
  \<open>Resource().pp_resource()\<close> is the handle of a default-constructed \<open>Resource\<close>, which
  the specification calls the null resource.
\<close>

definition null_resource :: PP_Resource where
  "null_resource = 0"

text \<open>
  An array returned as a pointer with a separate element count: the pointer is
  \<open>NULL\<close> (\<open>None\<close>) or gives the element at each \<open>uint32_t\<close> index.
\<close>

type_synonym format_array = "uint32_t \<Rightarrow> PP_PrintOutputFormat"

text \<open>
  \<open>PPB_GetInterface\<close> is the browser's lookup function from interface names to
  interface tables (\<open>const void*\<close>, \<open>None\<close> for \<open>NULL\<close>).
\<close>

type_synonym PPB_GetInterface = "string \<Rightarrow> addr option"

text \<open>
  The interface-name macros \<open>PPP_INSTANCE_INTERFACE\<close>, \<open>PPP_PRINTING_INTERFACE\<close> and
  \<open>PPB_CORE_INTERFACE\<close> are defined in headers that are not part of the sources; the
  functions that use them take their values as a parameter.
\<close>

record interface_names =
  PPP_INSTANCE_INTERFACE :: string
  PPP_PRINTING_INTERFACE :: string
  PPB_CORE_INTERFACE :: string

subsection \<open>The module object\<close>

text \<open>
  The fields of \<open>class Module\<close> that module.cc reads and writes. \<open>InstanceMap\<close> is a
  \<open>std::map\<close> from \<open>PP_Instance\<close> to \<open>Instance*\<close>; its only writer stores non-null pointers.
  A name cannot end in an underscore here, so the member \<open>pp_module_\<close> is
  \<open>pp_module_field\<close>, and likewise for the other three.
\<close>

record Module =
  pp_module_field :: PP_Module
  get_browser_interface_field :: "PPB_GetInterface option"
  core_field :: "addr option"
  current_instances_field :: "PP_Instance \<rightharpoonup> addr"

text \<open>\<open>Module::Module()\<close>: every pointer field is \<open>NULL\<close>, the map is empty.\<close>

definition Module_ctor :: Module where
  "Module_ctor =
     \<lparr>pp_module_field = 0, get_browser_interface_field = None, core_field = None,
      current_instances_field = Map.empty\<rparr>"

text \<open>The two static interface tables whose addresses \<open>GetInstanceInterface\<close> hands out.\<close>

datatype interface_table = instance_interface | printing_interface

text \<open>\<open>Module::GetInstanceInterface\<close> (lines 206-213); \<open>strcmp(a, b) == 0\<close> is string equality.\<close>

definition GetInstanceInterface :: "interface_names \<Rightarrow> string \<Rightarrow> interface_table option" where
  "GetInstanceInterface N interface_name =
     (if interface_name = PPP_INSTANCE_INTERFACE N then Some instance_interface
      else if interface_name = PPP_PRINTING_INTERFACE N then Some printing_interface
      else None)"

text \<open>
  Calling through a \<open>NULL\<close> function pointer has no defined result; it is the one fault
  of the model.
\<close>

datatype fault = Null_function_pointer_call

text \<open>\<open>Module::GetBrowserInterface\<close> (lines 215-217).\<close>

definition GetBrowserInterface :: "Module \<Rightarrow> string \<Rightarrow> fault + addr option" where
  "GetBrowserInterface this interface_name =
     (case get_browser_interface_field this of
        None \<Rightarrow> Inl Null_function_pointer_call
      | Some f \<Rightarrow> Inr (f interface_name))"

text \<open>\<open>Module::InstanceForPPInstance\<close> (lines 219-224).\<close>

definition InstanceForPPInstance :: "Module \<Rightarrow> PP_Instance \<Rightarrow> addr option" where
  "InstanceForPPInstance this instance =
     (case current_instances_field this instance of
        None \<Rightarrow> None
      | Some found \<Rightarrow> Some found)"

subsection \<open>The world: the module singleton, the plugin's own state, and a trace\<close>

text \<open>
  The trace records, most recent first, every call that the shim makes into plugin code
  (when the call is made) and every write to \<open>current_instances_\<close>.
\<close>

datatype event =
    Ev_CreateInstance PP_Instance
  | Ev_store PP_Instance addr
  | Ev_erase PP_Instance
  | Ev_delete addr
  | Ev_Init addr uint32_t "string list" "string list"
  | Ev_HandleDocumentLoad addr PP_Resource
  | Ev_HandleEvent addr PP_Event
  | Ev_GetInstanceObject addr
  | Ev_ViewChanged addr PP_Rect PP_Rect
  | Ev_QuerySupportedPrintOutputFormats
  | Ev_PrintBegin addr PP_PrintSettings
  | Ev_PrintPages addr "PP_PrintPageNumberRange list" uint32_t
  | Ev_PrintEnd addr
  | Ev_Module_Init

text \<open>
  \<open>Module::Get()\<close> is deliberately not implemented in module.cc (its header comment):
  the embedder supplies it. Here the world says which module it returns, if any.
\<close>

record 'u world =
  installed_module :: "Module option"
  plugin_state :: 'u
  trace :: "event list"

definition Module_Get :: "'u world \<Rightarrow> Module option" where
  "Module_Get w = installed_module w"

text \<open>
  Plugin code: the virtual methods of \<open>Instance\<close> and \<open>Module\<close> that the plugin overrides.
  Their bodies are not part of module.cc, so they are a parameter. A method is any
  function from the world at the call to its result and the world at its return. What
  it does in between is its own business: it can look instances up through
  \<open>Module::Get()\<close>, and it can call back into the callbacks of this file, which the
  module hands out through \<open>GetInstanceInterface\<close>; such a call is an application of
  \<open>Instance_New\<close>, \<open>Instance_Delete\<close> and so on inside the method.
\<close>

type_synonym ('u, 'r) plugin_method = "'u world \<Rightarrow> 'r \<times> 'u world"

record 'u plugin =
  CreateInstance :: "PP_Instance \<Rightarrow> ('u, addr option) plugin_method"
  Instance_dtor :: "addr \<Rightarrow> ('u, unit) plugin_method"
  Init :: "addr \<Rightarrow> uint32_t \<Rightarrow> string list \<Rightarrow> string list \<Rightarrow> ('u, bool) plugin_method"
  HandleDocumentLoad :: "addr \<Rightarrow> PP_Resource \<Rightarrow> ('u, bool) plugin_method"
  HandleEvent :: "addr \<Rightarrow> PP_Event \<Rightarrow> ('u, bool) plugin_method"
  GetInstanceObject :: "addr \<Rightarrow> ('u, PP_Var) plugin_method"
  ViewChanged :: "addr \<Rightarrow> PP_Rect \<Rightarrow> PP_Rect \<Rightarrow> ('u, unit) plugin_method"
  QuerySupportedPrintOutputFormats ::
    "uint32_t \<Rightarrow> ('u, format_array option \<times> uint32_t) plugin_method"
  PrintBegin :: "addr \<Rightarrow> PP_PrintSettings \<Rightarrow> ('u, int32_t) plugin_method"
  PrintPages :: "addr \<Rightarrow> PP_PrintPageNumberRange list \<Rightarrow> uint32_t \<Rightarrow> ('u, PP_Resource) plugin_method"
  PrintEnd :: "addr \<Rightarrow> ('u, unit) plugin_method"
  Module_Init :: "Module \<Rightarrow> ('u, bool) plugin_method"

text \<open>
  One call into plugin code: the call is traced, then the method runs; the callback
  goes on in the world in which the method returns.
\<close>

definition invoke :: "event \<Rightarrow> ('u, 'r) plugin_method \<Rightarrow> 'u world \<Rightarrow> 'r \<times> 'u world" where
  "invoke e f w = f (w\<lparr>trace := e # trace w\<rparr>)"

text \<open>
  A write to \<open>current_instances_\<close> through the pointer \<open>module_singleton\<close>. The world
  holds one module object, the one that \<open>Module::Get()\<close> returns, so the write changes
  the map as it is in the world at the time of the write.
\<close>

definition write_instances ::
  "event \<Rightarrow> ((PP_Instance \<rightharpoonup> addr) \<Rightarrow> (PP_Instance \<rightharpoonup> addr)) \<Rightarrow> 'u world \<Rightarrow> 'u world" where
  "write_instances e change w =
     w\<lparr>installed_module :=
         map_option (\<lambda>m. m\<lparr>current_instances_field := change (current_instances_field m)\<rparr>)
           (installed_module w),
       trace := e # trace w\<rparr>"

subsection \<open>PPP_Instance implementation\<close>

text \<open>
  \<open>Instance_New\<close> (lines 41-51). \<open>CreateInstance\<close> is plugin code; the store of line 47
  comes after it and writes to the map as \<open>CreateInstance\<close> left it.
\<close>

definition Instance_New :: "'u plugin \<Rightarrow> PP_Instance \<Rightarrow> 'u world \<Rightarrow> bool \<times> 'u world" where
  "Instance_New P instance w =
     (case Module_Get w of
        None \<Rightarrow> (False, w)
      | Some module_singleton \<Rightarrow>
          (case invoke (Ev_CreateInstance instance) (CreateInstance P instance) w of
             (Some obj, w1) \<Rightarrow>
               (True,
                write_instances (Ev_store instance obj)
                  (\<lambda>current_instances. current_instances(instance \<mapsto> obj)) w1)
           | (None, w1) \<Rightarrow> (False, w1)))"

text \<open>
  \<open>Instance_Delete\<close> (lines 53-66): the entry is erased, then \<open>delete obj\<close> runs the
  destructor, which is plugin code; nothing follows it.
\<close>

definition Instance_Delete :: "'u plugin \<Rightarrow> PP_Instance \<Rightarrow> 'u world \<Rightarrow> 'u world" where
  "Instance_Delete P instance w =
     (case Module_Get w of
        None \<Rightarrow> w
      | Some module_singleton \<Rightarrow>
          (case current_instances_field module_singleton instance of
             None \<Rightarrow> w
           | Some obj \<Rightarrow>
               (let w1 = write_instances (Ev_erase instance)
                           (\<lambda>current_instances. current_instances(instance := None)) w
                in snd (invoke (Ev_delete obj) (Instance_dtor P obj) w1))))"

text \<open>\<open>Instance_Initialize\<close> (lines 68-79).\<close>

definition Instance_Initialize ::
  "'u plugin \<Rightarrow> PP_Instance \<Rightarrow> uint32_t \<Rightarrow> string list \<Rightarrow> string list \<Rightarrow> 'u world
     \<Rightarrow> bool \<times> 'u world" where
  "Instance_Initialize P pp_instance argc argn argv w =
     (case Module_Get w of
        None \<Rightarrow> (False, w)
      | Some module_singleton \<Rightarrow>
          (case InstanceForPPInstance module_singleton pp_instance of
             None \<Rightarrow> (False, w)
           | Some instance \<Rightarrow>
               invoke (Ev_Init instance argc argn argv) (Init P instance argc argn argv) w))"

text \<open>\<open>Instance_HandleDocumentLoad\<close> (lines 81-90).\<close>

definition Instance_HandleDocumentLoad ::
  "'u plugin \<Rightarrow> PP_Instance \<Rightarrow> PP_Resource \<Rightarrow> 'u world \<Rightarrow> bool \<times> 'u world" where
  "Instance_HandleDocumentLoad P pp_instance pp_url_loader w =
     (case Module_Get w of
        None \<Rightarrow> (False, w)
      | Some module_singleton \<Rightarrow>
          (case InstanceForPPInstance module_singleton pp_instance of
             None \<Rightarrow> (False, w)
           | Some instance \<Rightarrow>
               invoke (Ev_HandleDocumentLoad instance pp_url_loader)
                 (HandleDocumentLoad P instance pp_url_loader) w))"

text \<open>\<open>Instance_HandleEvent\<close> (lines 92-101).\<close>

definition Instance_HandleEvent ::
  "'u plugin \<Rightarrow> PP_Instance \<Rightarrow> PP_Event \<Rightarrow> 'u world \<Rightarrow> bool \<times> 'u world" where
  "Instance_HandleEvent P pp_instance event w =
     (case Module_Get w of
        None \<Rightarrow> (False, w)
      | Some module_singleton \<Rightarrow>
          (case InstanceForPPInstance module_singleton pp_instance of
             None \<Rightarrow> (False, w)
           | Some instance \<Rightarrow>
               invoke (Ev_HandleEvent instance event) (HandleEvent P instance event) w))"

text \<open>\<open>Instance_GetInstanceObject\<close> (lines 103-111).\<close>

definition Instance_GetInstanceObject ::
  "'u plugin \<Rightarrow> PP_Instance \<Rightarrow> 'u world \<Rightarrow> PP_Var \<times> 'u world" where
  "Instance_GetInstanceObject P pp_instance w =
     (case Module_Get w of
        None \<Rightarrow> (Var_undefined, w)
      | Some module_singleton \<Rightarrow>
          (case InstanceForPPInstance module_singleton pp_instance of
             None \<Rightarrow> (Var_undefined, w)
           | Some instance \<Rightarrow>
               invoke (Ev_GetInstanceObject instance) (GetInstanceObject P instance) w))"

text \<open>\<open>Instance_ViewChanged\<close> (lines 113-123).\<close>

definition Instance_ViewChanged ::
  "'u plugin \<Rightarrow> PP_Instance \<Rightarrow> PP_Rect \<Rightarrow> PP_Rect \<Rightarrow> 'u world \<Rightarrow> 'u world" where
  "Instance_ViewChanged P pp_instance position clip w =
     (case Module_Get w of
        None \<Rightarrow> w
      | Some module_singleton \<Rightarrow>
          (case InstanceForPPInstance module_singleton pp_instance of
             None \<Rightarrow> w
           | Some instance \<Rightarrow>
               snd (invoke (Ev_ViewChanged instance position clip)
                      (ViewChanged P instance position clip) w)))"

subsection \<open>PPP_Printing implementation\<close>

text \<open>
  \<open>Printing_QuerySupportedFormats\<close> (lines 137-145). \<open>format_count\<close> is the value that
  the caller's \<open>*format_count\<close> holds on entry; the second component of the result is the
  value it holds on return.
\<close>

definition Printing_QuerySupportedFormats ::
  "'u plugin \<Rightarrow> uint32_t \<Rightarrow> 'u world \<Rightarrow> (format_array option \<times> uint32_t) \<times> 'u world" where
  "Printing_QuerySupportedFormats P format_count w =
     (case Module_Get w of
        None \<Rightarrow> ((None, 0), w)
      | Some module_singleton \<Rightarrow>
          invoke Ev_QuerySupportedPrintOutputFormats
            (QuerySupportedPrintOutputFormats P format_count) w)"

text \<open>
  The \<open>for\<close> loop of \<open>Printing_Begin\<close> (lines 162-165), from \<open>index\<close> on: \<open>True\<close> when it
  reaches the \<open>return instance->PrintBegin(...)\<close> of line 164, \<open>False\<close> when it runs to
  its end. \<open>index\<close> and \<open>format_count\<close> are \<open>uint32_t\<close>.
\<close>

function Printing_Begin_loop ::
  "format_array \<Rightarrow> uint32_t \<Rightarrow> uint32_t \<Rightarrow> PP_PrintOutputFormat \<Rightarrow> bool" where
  "Printing_Begin_loop formats format_count index fmt =
     (if index < format_count
      then (if formats index = fmt then True
            else Printing_Begin_loop formats format_count (index + 1) fmt)
      else False)"
  by pat_completeness auto
termination
proof (relation "measure (\<lambda>(formats, format_count, index, fmt). unat format_count - unat index)")
  show "wf (measure (\<lambda>(formats :: format_array, format_count :: uint32_t, index :: uint32_t,
                       fmt :: PP_PrintOutputFormat). unat format_count - unat index))"
    by simp
next
  fix formats :: format_array and format_count index :: uint32_t and fmt :: PP_PrintOutputFormat
  assume less: "index < format_count"
  then have "unat format_count - unat (index + 1) < unat format_count - unat index"
    by unat_arith
  then show "((formats, format_count, index + 1, fmt), (formats, format_count, index, fmt))
      \<in> measure (\<lambda>(formats, format_count, index, fmt). unat format_count - unat index)"
    by simp
qed

text \<open>\<open>Printing_Begin\<close> (lines 147-167); \<open>format_count\<close> starts at 0.\<close>

definition Printing_Begin ::
  "'u plugin \<Rightarrow> PP_Instance \<Rightarrow> PP_PrintSettings \<Rightarrow> 'u world \<Rightarrow> int32_t \<times> 'u world" where
  "Printing_Begin P pp_instance print_settings w =
     (case Module_Get w of
        None \<Rightarrow> (0, w)
      | Some module_singleton \<Rightarrow>
          (case InstanceForPPInstance module_singleton pp_instance of
             None \<Rightarrow> (0, w)
           | Some instance \<Rightarrow>
               (case invoke Ev_QuerySupportedPrintOutputFormats
                       (QuerySupportedPrintOutputFormats P 0) w of
                  ((None, format_count), w1) \<Rightarrow> (0, w1)
                | ((Some formats, format_count), w1) \<Rightarrow>
                    if Printing_Begin_loop formats format_count 0 (format print_settings)
                    then invoke (Ev_PrintBegin instance print_settings)
                           (PrintBegin P instance print_settings) w1
                    else (0, w1))))"

text \<open>\<open>Printing_PrintPages\<close> (lines 169-179).\<close>

definition Printing_PrintPages ::
  "'u plugin \<Rightarrow> PP_Instance \<Rightarrow> PP_PrintPageNumberRange list \<Rightarrow> uint32_t \<Rightarrow> 'u world
     \<Rightarrow> PP_Resource \<times> 'u world" where
  "Printing_PrintPages P pp_instance page_ranges page_range_count w =
     (case Module_Get w of
        None \<Rightarrow> (null_resource, w)
      | Some module_singleton \<Rightarrow>
          (case InstanceForPPInstance module_singleton pp_instance of
             None \<Rightarrow> (null_resource, w)
           | Some instance \<Rightarrow>
               invoke (Ev_PrintPages instance page_ranges page_range_count)
                 (PrintPages P instance page_ranges page_range_count) w))"

text \<open>\<open>Printing_End\<close> (lines 181-189).\<close>

definition Printing_End :: "'u plugin \<Rightarrow> PP_Instance \<Rightarrow> 'u world \<Rightarrow> 'u world" where
  "Printing_End P pp_instance w =
     (case Module_Get w of
        None \<Rightarrow> w
      | Some module_singleton \<Rightarrow>
          (case InstanceForPPInstance module_singleton pp_instance of
             None \<Rightarrow> w
           | Some instance \<Rightarrow> snd (invoke (Ev_PrintEnd instance) (PrintEnd P instance) w)))"

subsection \<open>Module initialisation\<close>

text \<open>
  \<open>Module::InternalInit\<close> (lines 226-236), on the module \<open>this\<close>; the result carries the
  module as the call leaves it. \<open>Init()\<close> is the plugin's virtual method; the parameter
  \<open>mod\<close> is \<open>pp_mod\<close> here.
\<close>

definition InternalInit ::
  "interface_names \<Rightarrow> 'u plugin \<Rightarrow> PP_Module \<Rightarrow> PPB_GetInterface option \<Rightarrow> Module \<Rightarrow> 'u world
     \<Rightarrow> fault + (bool \<times> Module \<times> 'u world)" where
  "InternalInit N P pp_mod get_browser_interface this w =
     (let this1 = this\<lparr>pp_module_field := pp_mod,
                       get_browser_interface_field := get_browser_interface\<rparr>
      in case GetBrowserInterface this1 (PPB_CORE_INTERFACE N) of
           Inl f \<Rightarrow> Inl f
         | Inr core \<Rightarrow>
             (let this2 = this1\<lparr>core_field := core\<rparr>
              in case core of
                   None \<Rightarrow> Inr (False, this2, w)
                 | Some c \<Rightarrow>
                     (case invoke Ev_Module_Init (Module_Init P this2) w of
                        (r, w1) \<Rightarrow> Inr (r, this2, w1))))"

subsection \<open>The browser's side: calls through the two interface tables\<close>

text \<open>
  One constructor for each slot of \<open>instance_interface\<close> (lines 125-133) and of
  \<open>printing_interface\<close> (lines 191-196), with the arguments of the call.
\<close>

datatype invocation =
    Call_Instance_New PP_Instance
  | Call_Instance_Delete PP_Instance
  | Call_Instance_Initialize PP_Instance uint32_t "string list" "string list"
  | Call_Instance_HandleDocumentLoad PP_Instance PP_Resource
  | Call_Instance_HandleEvent PP_Instance PP_Event
  | Call_Instance_GetInstanceObject PP_Instance
  | Call_Instance_ViewChanged PP_Instance PP_Rect PP_Rect
  | Call_Printing_QuerySupportedFormats uint32_t
  | Call_Printing_Begin PP_Instance PP_PrintSettings
  | Call_Printing_PrintPages PP_Instance "PP_PrintPageNumberRange list" uint32_t
  | Call_Printing_End PP_Instance

datatype returned =
    Ret_void
  | Ret_bool bool
  | Ret_Var PP_Var
  | Ret_formats "format_array option" uint32_t
  | Ret_int32 int32_t
  | Ret_Resource PP_Resource

fun browser_call :: "'u plugin \<Rightarrow> invocation \<Rightarrow> 'u world \<Rightarrow> returned \<times> 'u world" where
  "browser_call P (Call_Instance_New i) w =
     (case Instance_New P i w of (r, w1) \<Rightarrow> (Ret_bool r, w1))"
| "browser_call P (Call_Instance_Delete i) w = (Ret_void, Instance_Delete P i w)"
| "browser_call P (Call_Instance_Initialize i argc argn argv) w =
     (case Instance_Initialize P i argc argn argv w of (r, w1) \<Rightarrow> (Ret_bool r, w1))"
| "browser_call P (Call_Instance_HandleDocumentLoad i l) w =
     (case Instance_HandleDocumentLoad P i l w of (r, w1) \<Rightarrow> (Ret_bool r, w1))"
| "browser_call P (Call_Instance_HandleEvent i e) w =
     (case Instance_HandleEvent P i e w of (r, w1) \<Rightarrow> (Ret_bool r, w1))"
| "browser_call P (Call_Instance_GetInstanceObject i) w =
     (case Instance_GetInstanceObject P i w of (r, w1) \<Rightarrow> (Ret_Var r, w1))"
| "browser_call P (Call_Instance_ViewChanged i position clip) w =
     (Ret_void, Instance_ViewChanged P i position clip w)"
| "browser_call P (Call_Printing_QuerySupportedFormats n) w =
     (case Printing_QuerySupportedFormats P n w of
        ((formats, format_count), w1) \<Rightarrow> (Ret_formats formats format_count, w1))"
| "browser_call P (Call_Printing_Begin i s) w =
     (case Printing_Begin P i s w of (r, w1) \<Rightarrow> (Ret_int32 r, w1))"
| "browser_call P (Call_Printing_PrintPages i rs n) w =
     (case Printing_PrintPages P i rs n w of (r, w1) \<Rightarrow> (Ret_Resource r, w1))"
| "browser_call P (Call_Printing_End i) w = (Ret_void, Printing_End P i w)"

text \<open>A session: the browser makes one call after the other.\<close>

fun browser_calls :: "'u plugin \<Rightarrow> invocation list \<Rightarrow> 'u world \<Rightarrow> 'u world" where
  "browser_calls P [] w = w"
| "browser_calls P (c # cs) w = browser_calls P cs (snd (browser_call P c w))"

subsection \<open>Notions of the specification\<close>

text \<open>
  The value a callback returns when it cannot do its work: \<open>false\<close> for the \<open>bool\<close>
  callbacks, 0 for \<open>Printing_Begin\<close>, the null resource for \<open>Printing_PrintPages\<close>,
  \<open>NULL\<close> with a count of 0 for \<open>Printing_QuerySupportedFormats\<close>, the undefined \<open>Var\<close>
  for \<open>Instance_GetInstanceObject\<close>; a \<open>void\<close> callback just returns.
\<close>

fun failure_value :: "invocation \<Rightarrow> returned" where
  "failure_value (Call_Instance_New i) = Ret_bool False"
| "failure_value (Call_Instance_Delete i) = Ret_void"
| "failure_value (Call_Instance_Initialize i argc argn argv) = Ret_bool False"
| "failure_value (Call_Instance_HandleDocumentLoad i l) = Ret_bool False"
| "failure_value (Call_Instance_HandleEvent i e) = Ret_bool False"
| "failure_value (Call_Instance_GetInstanceObject i) = Ret_Var Var_undefined"
| "failure_value (Call_Instance_ViewChanged i position clip) = Ret_void"
| "failure_value (Call_Printing_QuerySupportedFormats n) = Ret_formats None 0"
| "failure_value (Call_Printing_Begin i s) = Ret_int32 0"
| "failure_value (Call_Printing_PrintPages i rs n) = Ret_Resource null_resource"
| "failure_value (Call_Printing_End i) = Ret_void"

text \<open>
  The registry as the specification describes it: reading the trace from its most
  recent event backwards, the object most recently stored under the handle and not
  since removed, and \<open>NULL\<close> when there is none.
\<close>

fun latest_entry :: "event list \<Rightarrow> PP_Instance \<Rightarrow> addr option" where
  "latest_entry [] h = None"
| "latest_entry (Ev_store i obj # es) h = (if i = h then Some obj else latest_entry es h)"
| "latest_entry (Ev_erase i # es) h = (if i = h then None else latest_entry es h)"
| "latest_entry (e # es) h = latest_entry es h"

definition registry_event :: "event \<Rightarrow> bool" where
  "registry_event e = (case e of Ev_store i obj \<Rightarrow> True | Ev_erase i \<Rightarrow> True | _ \<Rightarrow> False)"

text \<open>The invariant that ties the map of the installed module to the trace.\<close>

definition registry_follows_trace :: "'u world \<Rightarrow> bool" where
  "registry_follows_trace w =
     (\<exists>m. Module_Get w = Some m \<and>
          (\<forall>h. InstanceForPPInstance m h = latest_entry (trace w) h))"

text \<open>
  Plugin code that keeps the invariant: each method that a callback calls returns in a
  world where the module is still installed and its map is still in step with the
  trace, if that was so when the method was entered. Plugin code that reaches the
  module only through \<open>Module::Get()\<close> and the callbacks is of this kind, whether it
  calls back or not: \<open>current_instances_\<close> has no other writer.
\<close>

definition keeps_registry :: "('u, 'r) plugin_method \<Rightarrow> bool" where
  "keeps_registry f =
     (\<forall>w. registry_follows_trace w \<longrightarrow> registry_follows_trace (snd (f w)))"

definition plugin_keeps_registry :: "'u plugin \<Rightarrow> bool" where
  "plugin_keeps_registry P =
     ((\<forall>i. keeps_registry (CreateInstance P i)) \<and>
      (\<forall>obj. keeps_registry (Instance_dtor P obj)) \<and>
      (\<forall>obj argc argn argv. keeps_registry (Init P obj argc argn argv)) \<and>
      (\<forall>obj l. keeps_registry (HandleDocumentLoad P obj l)) \<and>
      (\<forall>obj e. keeps_registry (HandleEvent P obj e)) \<and>
      (\<forall>obj. keeps_registry (GetInstanceObject P obj)) \<and>
      (\<forall>obj position clip. keeps_registry (ViewChanged P obj position clip)) \<and>
      (\<forall>n. keeps_registry (QuerySupportedPrintOutputFormats P n)) \<and>
      (\<forall>obj s. keeps_registry (PrintBegin P obj s)) \<and>
      (\<forall>obj rs n. keeps_registry (PrintPages P obj rs n)) \<and>
      (\<forall>obj. keeps_registry (PrintEnd P obj)))"

text \<open>
  The guard that the callbacks on an existing instance share, in one place: no module
  or no instance gives the callback's failure value.
\<close>

definition with_instance ::
  "'u world \<Rightarrow> PP_Instance \<Rightarrow> 'r \<Rightarrow> (Module \<Rightarrow> addr \<Rightarrow> 'r) \<Rightarrow> 'r" where
  "with_instance w pp_instance failure forward =
     (case Module_Get w of
        None \<Rightarrow> failure
      | Some module_singleton \<Rightarrow>
          (case InstanceForPPInstance module_singleton pp_instance of
             None \<Rightarrow> failure
           | Some instance \<Rightarrow> forward module_singleton instance))"

subsection \<open>A concrete plugin and concrete worlds\<close>

text \<open>
  A plugin that counts the calls it receives in its state. It creates the instance
  object \<open>i + 100\<close> for a positive handle \<open>i\<close> and refuses the others, and supports
  the two print output formats 1 and 2.
\<close>

definition example_names :: interface_names where
  "example_names =
     \<lparr>PPP_INSTANCE_INTERFACE = ''PPP_Instance;0.1'',
      PPP_PRINTING_INTERFACE = ''PPP_Printing;0.1'',
      PPB_CORE_INTERFACE = ''PPB_Core;0.1''\<rparr>"

definition counted :: "nat world \<Rightarrow> nat world" where
  "counted w = w\<lparr>plugin_state := Suc (plugin_state w)\<rparr>"

definition example_plugin :: "nat plugin" where
  "example_plugin =
     \<lparr>CreateInstance = (\<lambda>i w. (if 0 < i then Some (nat i + 100) else None, counted w)),
      Instance_dtor = (\<lambda>obj w. ((), counted w)),
      Init = (\<lambda>obj argc argn argv w. (argc = 0, counted w)),
      HandleDocumentLoad = (\<lambda>obj l w. (l = 5, counted w)),
      HandleEvent = (\<lambda>obj e w. (e = 3, counted w)),
      GetInstanceObject = (\<lambda>obj w. (Var_value obj, counted w)),
      ViewChanged = (\<lambda>obj position clip w. ((), counted w)),
      QuerySupportedPrintOutputFormats =
        (\<lambda>n w. ((Some (\<lambda>index. if index = 0 then 1 else if index = 1 then 2 else 0), 2),
                 counted w)),
      PrintBegin = (\<lambda>obj s w. (7, counted w)),
      PrintPages = (\<lambda>obj rs n w. (9, counted w)),
      PrintEnd = (\<lambda>obj w. ((), counted w)),
      Module_Init = (\<lambda>this w. (True, counted w))\<rparr>"

text \<open>
  The same plugin with a destructor that looks its own handle 1 up while it runs and
  leaves what it saw in the plugin's state: 1 for \<open>NULL\<close>, 2 for an object, 0 for no module.
\<close>

definition probe_plugin :: "nat plugin" where
  "probe_plugin =
     example_plugin\<lparr>Instance_dtor :=
       (\<lambda>obj w. ((), w\<lparr>plugin_state :=
                         (case Module_Get w of
                            None \<Rightarrow> 0
                          | Some m \<Rightarrow>
                              (case InstanceForPPInstance m 1 of None \<Rightarrow> 1 | Some found \<Rightarrow> 2))\<rparr>))\<rparr>"

text \<open>
  Two plugins that call back. The destructor of the first registers the handle 1
  again, by a call of \<open>Instance_New\<close> that is served as \<open>example_plugin\<close> serves it.
  \<open>CreateInstance\<close> of the second registers the handle 2 in the same way and then
  returns \<open>NULL\<close>.
\<close>

definition reregistering_plugin :: "nat plugin" where
  "reregistering_plugin =
     example_plugin\<lparr>Instance_dtor := (\<lambda>obj w. ((), snd (Instance_New example_plugin 1 w)))\<rparr>"

definition refusing_plugin :: "nat plugin" where
  "refusing_plugin =
     example_plugin\<lparr>CreateInstance := (\<lambda>i w. (None, snd (Instance_New example_plugin 2 w)))\<rparr>"

definition fresh_world :: "nat world" where
  "fresh_world = \<lparr>installed_module = Some Module_ctor, plugin_state = 0, trace = []\<rparr>"

definition example_world :: "nat world" where
  "example_world =
     \<lparr>installed_module = Some (Module_ctor\<lparr>current_instances_field := [1 \<mapsto> 10]\<rparr>),
      plugin_state = 0, trace = []\<rparr>"

definition no_module_world :: "nat world" where
  "no_module_world = \<lparr>installed_module = None, plugin_state = 0, trace = []\<rparr>"

definition browser_without_core :: PPB_GetInterface where
  "browser_without_core = (\<lambda>name. if name = ''PPB_Var;0.1'' then Some 7 else None)"

section \<open>Auxiliary facts\<close>

declare Printing_Begin_loop.simps [simp del]

lemmas callback_defs =
  Instance_New_def Instance_Delete_def Instance_Initialize_def
  Instance_HandleDocumentLoad_def Instance_HandleEvent_def Instance_GetInstanceObject_def
  Instance_ViewChanged_def Printing_QuerySupportedFormats_def Printing_Begin_def
  Printing_PrintPages_def Printing_End_def invoke_def write_instances_def
  Module_Get_def InstanceForPPInstance_def

lemmas example_defs =
  example_plugin_def probe_plugin_def reregistering_plugin_def refusing_plugin_def
  counted_def example_world_def fresh_world_def no_module_world_def Module_ctor_def
  example_names_def browser_without_core_def

subsection \<open>The map lookup\<close>

lemma InstanceForPPInstance_eq: "InstanceForPPInstance m h = current_instances_field m h"
  by (simp add: InstanceForPPInstance_def split: option.splits)

subsection \<open>The shared guard\<close>

lemma with_instance_found:
  "Module_Get w = Some m \<Longrightarrow> InstanceForPPInstance m i = Some obj \<Longrightarrow>
   with_instance w i failure forward = forward m obj"
  by (simp add: with_instance_def)

lemma with_instance_keeps:
  assumes "Q failure" and "\<And>m obj. Q (forward m obj)"
  shows "Q (with_instance w i failure forward)"
  using assms by (simp add: with_instance_def split: option.splits)

lemma Instance_Initialize_guard:
  "Instance_Initialize P i argc argn argv w =
     with_instance w i (False, w)
       (\<lambda>m obj. invoke (Ev_Init obj argc argn argv) (Init P obj argc argn argv) w)"
  by (simp add: Instance_Initialize_def with_instance_def)

lemma Instance_HandleDocumentLoad_guard:
  "Instance_HandleDocumentLoad P i l w =
     with_instance w i (False, w)
       (\<lambda>m obj. invoke (Ev_HandleDocumentLoad obj l) (HandleDocumentLoad P obj l) w)"
  by (simp add: Instance_HandleDocumentLoad_def with_instance_def)

lemma Instance_HandleEvent_guard:
  "Instance_HandleEvent P i e w =
     with_instance w i (False, w)
       (\<lambda>m obj. invoke (Ev_HandleEvent obj e) (HandleEvent P obj e) w)"
  by (simp add: Instance_HandleEvent_def with_instance_def)

lemma Instance_GetInstanceObject_guard:
  "Instance_GetInstanceObject P i w =
     with_instance w i (Var_undefined, w)
       (\<lambda>m obj. invoke (Ev_GetInstanceObject obj) (GetInstanceObject P obj) w)"
  by (simp add: Instance_GetInstanceObject_def with_instance_def)

lemma Instance_ViewChanged_guard:
  "Instance_ViewChanged P i position clip w =
     with_instance w i w
       (\<lambda>m obj. snd (invoke (Ev_ViewChanged obj position clip)
                       (ViewChanged P obj position clip) w))"
  by (simp add: Instance_ViewChanged_def with_instance_def)

lemma Printing_PrintPages_guard:
  "Printing_PrintPages P i rs n w =
     with_instance w i (null_resource, w)
       (\<lambda>m obj. invoke (Ev_PrintPages obj rs n) (PrintPages P obj rs n) w)"
  by (simp add: Printing_PrintPages_def with_instance_def)

lemma Printing_End_guard:
  "Printing_End P i w =
     with_instance w i w (\<lambda>m obj. snd (invoke (Ev_PrintEnd obj) (PrintEnd P obj) w))"
  by (simp add: Printing_End_def with_instance_def)

lemma Printing_Begin_guard:
  "Printing_Begin P i s w =
     with_instance w i (0, w)
       (\<lambda>m obj.
          case invoke Ev_QuerySupportedPrintOutputFormats
                 (QuerySupportedPrintOutputFormats P 0) w of
            ((None, format_count), w1) \<Rightarrow> (0, w1)
          | ((Some formats, format_count), w1) \<Rightarrow>
              if Printing_Begin_loop formats format_count 0 (format s)
              then invoke (Ev_PrintBegin obj s) (PrintBegin P obj s) w1
              else (0, w1))"
  by (simp add: Printing_Begin_def with_instance_def)

subsection \<open>The search loop of \<open>Printing_Begin\<close>\<close>

lemma Printing_Begin_loop_iff:
  "Printing_Begin_loop formats format_count index fmt \<longleftrightarrow>
     (\<exists>j. index \<le> j \<and> j < format_count \<and> formats j = fmt)"
proof (induction formats format_count index fmt rule: Printing_Begin_loop.induct)
  case (1 formats format_count index fmt)
  show ?case
  proof (cases "index < format_count")
    case False
    then have "\<not> Printing_Begin_loop formats format_count index fmt"
      by (subst Printing_Begin_loop.simps) simp
    moreover from False have "\<not> (\<exists>j. index \<le> j \<and> j < format_count \<and> formats j = fmt)"
      by auto
    ultimately show ?thesis by blast
  next
    case less: True
    show ?thesis
    proof (cases "formats index = fmt")
      case True
      with less have "Printing_Begin_loop formats format_count index fmt"
        by (subst Printing_Begin_loop.simps) simp
      moreover from True less have "\<exists>j. index \<le> j \<and> j < format_count \<and> formats j = fmt"
        by auto
      ultimately show ?thesis by blast
    next
      case False
      from less False have step:
        "Printing_Begin_loop formats format_count index fmt =
         Printing_Begin_loop formats format_count (index + 1) fmt"
        by (subst Printing_Begin_loop.simps) simp
      have ih: "Printing_Begin_loop formats format_count (index + 1) fmt \<longleftrightarrow>
          (\<exists>j. index + 1 \<le> j \<and> j < format_count \<and> formats j = fmt)"
        using "1.IH" less False by simp
      have "(\<exists>j. index + 1 \<le> j \<and> j < format_count \<and> formats j = fmt) \<longleftrightarrow>
            (\<exists>j. index \<le> j \<and> j < format_count \<and> formats j = fmt)"
      proof
        assume "\<exists>j. index + 1 \<le> j \<and> j < format_count \<and> formats j = fmt"
        then obtain j where j: "index + 1 \<le> j" "j < format_count" "formats j = fmt" by blast
        from less j(1) have "index \<le> j" by unat_arith
        with j show "\<exists>j. index \<le> j \<and> j < format_count \<and> formats j = fmt" by blast
      next
        assume "\<exists>j. index \<le> j \<and> j < format_count \<and> formats j = fmt"
        then obtain j where j: "index \<le> j" "j < format_count" "formats j = fmt" by blast
        from j(3) False have "j \<noteq> index" by auto
        with j(1) less have "index + 1 \<le> j" by unat_arith
        with j show "\<exists>j. index + 1 \<le> j \<and> j < format_count \<and> formats j = fmt" by blast
      qed
      with step ih show ?thesis by simp
    qed
  qed
qed

lemma Printing_Begin_loop_from_0:
  "Printing_Begin_loop formats format_count 0 fmt \<longleftrightarrow>
     (\<exists>j. j < format_count \<and> formats j = fmt)"
  by (simp add: Printing_Begin_loop_iff)

lemma Printing_Begin_found:
  assumes "Module_Get w = Some m" and "InstanceForPPInstance m pp_instance = Some obj"
  shows "Printing_Begin P pp_instance print_settings w =
     (case invoke Ev_QuerySupportedPrintOutputFormats (QuerySupportedPrintOutputFormats P 0) w of
        ((None, format_count), w1) \<Rightarrow> (0, w1)
      | ((Some formats, format_count), w1) \<Rightarrow>
          if \<exists>j. j < format_count \<and> formats j = format print_settings
          then invoke (Ev_PrintBegin obj print_settings) (PrintBegin P obj print_settings) w1
          else (0, w1))"
  using assms
  by (simp add: Printing_Begin_def Printing_Begin_loop_from_0
           split: prod.splits option.splits)

subsection \<open>Every callback keeps the map in step with the trace\<close>

lemma latest_entry_skip: "\<not> registry_event e \<Longrightarrow> latest_entry (e # es) h = latest_entry es h"
  by (cases e) (simp_all add: registry_event_def)

lemma logged_keeps_registry:
  "\<not> registry_event e \<Longrightarrow> registry_follows_trace w \<Longrightarrow>
   registry_follows_trace (w\<lparr>trace := e # trace w\<rparr>)"
  by (simp add: registry_follows_trace_def Module_Get_def latest_entry_skip)

lemma invoke_keeps_registry:
  "\<not> registry_event e \<Longrightarrow> keeps_registry f \<Longrightarrow> registry_follows_trace w \<Longrightarrow>
   registry_follows_trace (snd (invoke e f w))"
  by (simp add: invoke_def keeps_registry_def logged_keeps_registry)

lemma store_keeps_registry:
  "registry_follows_trace w \<Longrightarrow>
   registry_follows_trace
     (write_instances (Ev_store i obj) (\<lambda>current_instances. current_instances(i \<mapsto> obj)) w)"
  by (auto simp: registry_follows_trace_def write_instances_def Module_Get_def
        InstanceForPPInstance_eq)

lemma erase_keeps_registry:
  "registry_follows_trace w \<Longrightarrow>
   registry_follows_trace
     (write_instances (Ev_erase i) (\<lambda>current_instances. current_instances(i := None)) w)"
  by (auto simp: registry_follows_trace_def write_instances_def Module_Get_def
        InstanceForPPInstance_eq)

lemma Instance_New_keeps_registry:
  assumes "plugin_keeps_registry P" and "registry_follows_trace w"
  shows "registry_follows_trace (snd (Instance_New P i w))"
proof -
  from assms(2) obtain m where m: "Module_Get w = Some m"
    by (auto simp: registry_follows_trace_def)
  have created: "registry_follows_trace
      (snd (invoke (Ev_CreateInstance i) (CreateInstance P i) w))"
    using assms by (simp add: invoke_keeps_registry plugin_keeps_registry_def registry_event_def)
  show ?thesis
  proof (cases "invoke (Ev_CreateInstance i) (CreateInstance P i) w")
    case (Pair r w1)
    with created have w1: "registry_follows_trace w1" by simp
    show ?thesis
    proof (cases r)
      case None
      with Pair m w1 show ?thesis by (simp add: Instance_New_def)
    next
      case (Some obj)
      with Pair m store_keeps_registry [OF w1, of i obj] show ?thesis
        by (simp add: Instance_New_def)
    qed
  qed
qed

lemma Instance_Delete_keeps_registry:
  assumes "plugin_keeps_registry P" and "registry_follows_trace w"
  shows "registry_follows_trace (Instance_Delete P i w)"
proof -
  from assms(2) obtain m where m: "Module_Get w = Some m"
    by (auto simp: registry_follows_trace_def)
  show ?thesis
  proof (cases "current_instances_field m i")
    case None
    then have "Instance_Delete P i w = w"
      using m by (simp add: Instance_Delete_def)
    with assms show ?thesis by simp
  next
    case (Some obj)
    then have "Instance_Delete P i w =
        snd (invoke (Ev_delete obj) (Instance_dtor P obj)
               (write_instances (Ev_erase i)
                  (\<lambda>current_instances. current_instances(i := None)) w))"
      using m by (simp add: Instance_Delete_def)
    then show ?thesis
      using assms
      by (simp add: invoke_keeps_registry erase_keeps_registry plugin_keeps_registry_def
            registry_event_def)
  qed
qed

lemma Printing_Begin_keeps_registry:
  assumes "plugin_keeps_registry P" and "registry_follows_trace w"
  shows "registry_follows_trace (snd (Printing_Begin P i s w))"
  unfolding Printing_Begin_guard
proof (rule with_instance_keeps [where Q = "\<lambda>r. registry_follows_trace (snd r)"])
  show "registry_follows_trace (snd (0 :: int32_t, w))"
    using assms(2) by simp
next
  fix m obj
  obtain formats format_count w1 where q:
    "invoke Ev_QuerySupportedPrintOutputFormats (QuerySupportedPrintOutputFormats P 0) w
       = ((formats, format_count), w1)"
    by (metis prod.exhaust)
  have w1: "registry_follows_trace w1"
    using invoke_keeps_registry [of Ev_QuerySupportedPrintOutputFormats
            "QuerySupportedPrintOutputFormats P 0" w] assms q
    by (simp add: registry_event_def plugin_keeps_registry_def)
  have w2: "registry_follows_trace (snd (invoke (Ev_PrintBegin obj s) (PrintBegin P obj s) w1))"
    using invoke_keeps_registry [of "Ev_PrintBegin obj s" "PrintBegin P obj s" w1] assms(1) w1
    by (simp add: registry_event_def plugin_keeps_registry_def)
  show "registry_follows_trace
          (snd (case invoke Ev_QuerySupportedPrintOutputFormats
                      (QuerySupportedPrintOutputFormats P 0) w of
                  ((None, format_count), w1) \<Rightarrow> (0, w1)
                | ((Some formats, format_count), w1) \<Rightarrow>
                    if Printing_Begin_loop formats format_count 0 (format s)
                    then invoke (Ev_PrintBegin obj s) (PrintBegin P obj s) w1
                    else (0, w1)))"
    using w1 w2 q by (simp split: option.splits)
qed

lemma browser_call_keeps_registry:
  assumes "plugin_keeps_registry P" and "registry_follows_trace w"
  shows "registry_follows_trace (snd (browser_call P c w))"
proof (cases c)
  case (Call_Instance_New i)
  with Instance_New_keeps_registry [OF assms, of i] show ?thesis
    by (cases "Instance_New P i w") simp
next
  case (Call_Instance_Delete i)
  with Instance_Delete_keeps_registry [OF assms, of i] show ?thesis
    by simp
next
  case (Call_Instance_Initialize i argc argn argv)
  have "registry_follows_trace (snd (Instance_Initialize P i argc argn argv w))"
    unfolding Instance_Initialize_guard
    by (rule with_instance_keeps [where Q = "\<lambda>r. registry_follows_trace (snd r)"])
       (simp_all add: assms(2) assms(1) [unfolded plugin_keeps_registry_def]
          invoke_keeps_registry registry_event_def)
  with Call_Instance_Initialize show ?thesis
    by (cases "Instance_Initialize P i argc argn argv w") simp
next
  case (Call_Instance_HandleDocumentLoad i l)
  have "registry_follows_trace (snd (Instance_HandleDocumentLoad P i l w))"
    unfolding Instance_HandleDocumentLoad_guard
    by (rule with_instance_keeps [where Q = "\<lambda>r. registry_follows_trace (snd r)"])
       (simp_all add: assms(2) assms(1) [unfolded plugin_keeps_registry_def]
          invoke_keeps_registry registry_event_def)
  with Call_Instance_HandleDocumentLoad show ?thesis
    by (cases "Instance_HandleDocumentLoad P i l w") simp
next
  case (Call_Instance_HandleEvent i e)
  have "registry_follows_trace (snd (Instance_HandleEvent P i e w))"
    unfolding Instance_HandleEvent_guard
    by (rule with_instance_keeps [where Q = "\<lambda>r. registry_follows_trace (snd r)"])
       (simp_all add: assms(2) assms(1) [unfolded plugin_keeps_registry_def]
          invoke_keeps_registry registry_event_def)
  with Call_Instance_HandleEvent show ?thesis
    by (cases "Instance_HandleEvent P i e w") simp
next
  case (Call_Instance_GetInstanceObject i)
  have "registry_follows_trace (snd (Instance_GetInstanceObject P i w))"
    unfolding Instance_GetInstanceObject_guard
    by (rule with_instance_keeps [where Q = "\<lambda>r. registry_follows_trace (snd r)"])
       (simp_all add: assms(2) assms(1) [unfolded plugin_keeps_registry_def]
          invoke_keeps_registry registry_event_def)
  with Call_Instance_GetInstanceObject show ?thesis
    by (cases "Instance_GetInstanceObject P i w") simp
next
  case (Call_Instance_ViewChanged i position clip)
  have "registry_follows_trace (Instance_ViewChanged P i position clip w)"
    unfolding Instance_ViewChanged_guard
    by (rule with_instance_keeps [where Q = registry_follows_trace])
       (simp_all add: assms(2) assms(1) [unfolded plugin_keeps_registry_def]
          invoke_keeps_registry registry_event_def)
  with Call_Instance_ViewChanged show ?thesis
    by simp
next
  case (Call_Printing_QuerySupportedFormats n)
  from assms(2) obtain m where "Module_Get w = Some m"
    by (auto simp: registry_follows_trace_def)
  then have "snd (Printing_QuerySupportedFormats P n w) =
          snd (invoke Ev_QuerySupportedPrintOutputFormats (QuerySupportedPrintOutputFormats P n) w)"
    by (simp add: Printing_QuerySupportedFormats_def)
  with Call_Printing_QuerySupportedFormats assms
    invoke_keeps_registry [of Ev_QuerySupportedPrintOutputFormats
      "QuerySupportedPrintOutputFormats P n" w]
  show ?thesis
    by (cases "Printing_QuerySupportedFormats P n w")
       (auto simp: registry_event_def plugin_keeps_registry_def)
next
  case (Call_Printing_Begin i s)
  with Printing_Begin_keeps_registry [OF assms, of i s] show ?thesis
    by (cases "Printing_Begin P i s w") simp
next
  case (Call_Printing_PrintPages i rs n)
  have "registry_follows_trace (snd (Printing_PrintPages P i rs n w))"
    unfolding Printing_PrintPages_guard
    by (rule with_instance_keeps [where Q = "\<lambda>r. registry_follows_trace (snd r)"])
       (simp_all add: assms(2) assms(1) [unfolded plugin_keeps_registry_def]
          invoke_keeps_registry registry_event_def)
  with Call_Printing_PrintPages show ?thesis
    by (cases "Printing_PrintPages P i rs n w") simp
next
  case (Call_Printing_End i)
  have "registry_follows_trace (Printing_End P i w)"
    unfolding Printing_End_guard
    by (rule with_instance_keeps [where Q = registry_follows_trace])
       (simp_all add: assms(2) assms(1) [unfolded plugin_keeps_registry_def]
          invoke_keeps_registry registry_event_def)
  with Call_Printing_End show ?thesis
    by simp
qed

lemma browser_calls_keep_registry:
  "plugin_keeps_registry P \<Longrightarrow> registry_follows_trace w \<Longrightarrow>
   registry_follows_trace (browser_calls P cs w)"
  by (induction cs arbitrary: w) (simp_all add: browser_call_keeps_registry)

subsection \<open>Plugin code that keeps the map in step with the trace\<close>

text \<open>
  Code that leaves the module and the trace alone, a call back into any callback that
  is served by plugin code of this kind, and one piece of such code after another.
\<close>

lemma keeps_registry_untouched:
  assumes "\<And>w. installed_module (snd (f w)) = installed_module w"
    and "\<And>w. trace (snd (f w)) = trace w"
  shows "keeps_registry f"
  using assms by (simp add: keeps_registry_def registry_follows_trace_def Module_Get_def)

lemma keeps_registry_call_back:
  "plugin_keeps_registry P \<Longrightarrow> keeps_registry (\<lambda>w. (r w, snd (browser_call P c w)))"
  by (simp add: keeps_registry_def browser_call_keeps_registry)

lemma keeps_registry_then:
  assumes "keeps_registry f" and "\<And>x. keeps_registry (g x)"
  shows "keeps_registry (\<lambda>w. g (fst (f w)) (snd (f w)))"
  using assms by (simp add: keeps_registry_def)

subsection \<open>The concrete plugins keep the map in step with the trace\<close>

lemma counted_keeps_registry: "keeps_registry (\<lambda>w. (r, counted w))"
  by (rule keeps_registry_untouched) (simp_all add: counted_def)

lemma example_plugin_keeps_registry: "plugin_keeps_registry example_plugin"
  by (simp add: plugin_keeps_registry_def example_plugin_def counted_keeps_registry)

lemma reregistering_plugin_keeps_registry: "plugin_keeps_registry reregistering_plugin"
proof -
  have "keeps_registry (\<lambda>w. ((), snd (Instance_New example_plugin 1 w)))"
    by (simp add: keeps_registry_def Instance_New_keeps_registry example_plugin_keeps_registry)
  then show ?thesis
    using example_plugin_keeps_registry
    by (simp add: plugin_keeps_registry_def reregistering_plugin_def)
qed

section \<open>The claims of the specification\<close>

subsection \<open>C1: interface lookup by name\<close>

text \<open>
  Claim C1. \<open>Module::GetInstanceInterface\<close> is a string-compare dispatch: for every
  interface name it returns the address of the static \<open>PPP_Instance\<close> table if the name
  equals \<open>PPP_INSTANCE_INTERFACE\<close>, the address of the static \<open>PPP_Printing\<close> table if
  the name equals \<open>PPP_PRINTING_INTERFACE\<close>, and \<open>NULL\<close> for every other string. The
  result depends on the name alone. The two macros name different interfaces.
\<close>

theorem GetInstanceInterface_dispatch:
  assumes "PPP_INSTANCE_INTERFACE N \<noteq> PPP_PRINTING_INTERFACE N"
  shows "(interface_name = PPP_INSTANCE_INTERFACE N \<longrightarrow>
            GetInstanceInterface N interface_name = Some instance_interface) \<and>
         (interface_name = PPP_PRINTING_INTERFACE N \<longrightarrow>
            GetInstanceInterface N interface_name = Some printing_interface) \<and>
         (interface_name \<noteq> PPP_INSTANCE_INTERFACE N \<and>
          interface_name \<noteq> PPP_PRINTING_INTERFACE N \<longrightarrow>
            GetInstanceInterface N interface_name = None)"
  using assms by (simp add: GetInstanceInterface_def)

theorem GetInstanceInterface_dispatch_witness:
  "PPP_INSTANCE_INTERFACE example_names \<noteq> PPP_PRINTING_INTERFACE example_names \<and>
   GetInstanceInterface example_names ''PPP_Instance;0.1'' = Some instance_interface \<and>
   GetInstanceInterface example_names ''PPP_Printing;0.1'' = Some printing_interface \<and>
   GetInstanceInterface example_names ''PPB_Core;0.1'' = None"
proof -
  have distinct: "PPP_INSTANCE_INTERFACE example_names \<noteq> PPP_PRINTING_INTERFACE example_names"
    by (simp add: example_names_def)
  show ?thesis
    using distinct
      GetInstanceInterface_dispatch [OF distinct, of "''PPP_Instance;0.1''"]
      GetInstanceInterface_dispatch [OF distinct, of "''PPP_Printing;0.1''"]
      GetInstanceInterface_dispatch [OF distinct, of "''PPB_Core;0.1''"]
    by (simp add: example_names_def)
qed

subsection \<open>C2: forwarding to the instance object\<close>

text \<open>
  Claim C2 says that every callback, \<open>Printing_Begin\<close> included, forwards to
  the method of the registered instance object and returns its result unchanged. That
  fails for \<open>Printing_Begin\<close>: with the handle 1 registered for the object 10 and a
  plugin that supports the formats 1 and 2 only, a request for format 5 returns 0 and
  makes no call of \<open>PrintBegin\<close>, which would have returned 7.
\<close>

theorem Printing_Begin_not_pass_through:
  "Module_Get example_world = Some (Module_ctor\<lparr>current_instances_field := [1 \<mapsto> 10]\<rparr>) \<and>
   InstanceForPPInstance (Module_ctor\<lparr>current_instances_field := [1 \<mapsto> 10]\<rparr>) 1 = Some 10 \<and>
   fst (PrintBegin example_plugin 10 \<lparr>format = 5\<rparr> example_world) = 7 \<and>
   fst (PrintBegin example_plugin 10 \<lparr>format = 5\<rparr>
          (snd (Printing_Begin example_plugin 1 \<lparr>format = 5\<rparr> example_world))) = 7 \<and>
   fst (Printing_Begin example_plugin 1 \<lparr>format = 5\<rparr> example_world) = 0 \<and>
   trace (snd (Printing_Begin example_plugin 1 \<lparr>format = 5\<rparr> example_world)) =
     [Ev_QuerySupportedPrintOutputFormats]"
proof -
  let ?m = "Module_ctor\<lparr>current_instances_field := [1 \<mapsto> 10]\<rparr>"
  have a: "Module_Get example_world = Some ?m"
    by (simp add: Module_Get_def example_world_def)
  have b: "InstanceForPPInstance ?m 1 = Some 10"
    by (simp add: InstanceForPPInstance_def)
  have c: "Printing_Begin example_plugin 1 \<lparr>format = 5\<rparr> example_world =
      (0, example_world\<lparr>plugin_state := 1, trace := [Ev_QuerySupportedPrintOutputFormats]\<rparr>)"
    by (subst Printing_Begin_found [OF a b])
       (simp add: invoke_def example_plugin_def example_world_def counted_def)
  show ?thesis
    using a b by (simp add: c) (simp add: example_plugin_def)
qed

text \<open>
  Claim C2, amended. For a handle that is registered in the map of the module that
  \<open>Module::Get()\<close> returns, each of \<open>Instance_Initialize\<close>, \<open>Instance_HandleDocumentLoad\<close>,
  \<open>Instance_HandleEvent\<close>, \<open>Instance_GetInstanceObject\<close>, \<open>Instance_ViewChanged\<close>,
  \<open>Printing_PrintPages\<close> and \<open>Printing_End\<close> is exactly one call of the
  corresponding method of the registered object, with the arguments it was given, and
  returns that method's result. \<open>Printing_Begin\<close> first asks the module for the supported print output
  formats; it is the call of \<open>PrintBegin\<close> on the registered object when the array is
  not \<open>NULL\<close> and the requested format is among its first \<open>format_count\<close> elements, and
  otherwise returns 0 without calling \<open>PrintBegin\<close>.
\<close>

theorem instance_callbacks_forward:
  assumes "Module_Get w = Some m" and "InstanceForPPInstance m pp_instance = Some obj"
  shows "Instance_Initialize P pp_instance argc argn argv w =
           invoke (Ev_Init obj argc argn argv) (Init P obj argc argn argv) w \<and>
         Instance_HandleDocumentLoad P pp_instance pp_url_loader w =
           invoke (Ev_HandleDocumentLoad obj pp_url_loader)
             (HandleDocumentLoad P obj pp_url_loader) w \<and>
         Instance_HandleEvent P pp_instance event w =
           invoke (Ev_HandleEvent obj event) (HandleEvent P obj event) w \<and>
         Instance_GetInstanceObject P pp_instance w =
           invoke (Ev_GetInstanceObject obj) (GetInstanceObject P obj) w \<and>
         Instance_ViewChanged P pp_instance position clip w =
           snd (invoke (Ev_ViewChanged obj position clip) (ViewChanged P obj position clip) w) \<and>
         Printing_PrintPages P pp_instance page_ranges page_range_count w =
           invoke (Ev_PrintPages obj page_ranges page_range_count)
             (PrintPages P obj page_ranges page_range_count) w \<and>
         Printing_End P pp_instance w = snd (invoke (Ev_PrintEnd obj) (PrintEnd P obj) w) \<and>
         Printing_Begin P pp_instance print_settings w =
           (case invoke Ev_QuerySupportedPrintOutputFormats
                   (QuerySupportedPrintOutputFormats P 0) w of
              ((None, format_count), w1) \<Rightarrow> (0, w1)
            | ((Some formats, format_count), w1) \<Rightarrow>
                if \<exists>j. j < format_count \<and> formats j = format print_settings
                then invoke (Ev_PrintBegin obj print_settings)
                       (PrintBegin P obj print_settings) w1
                else (0, w1))"
  using assms
  by (simp add: Instance_Initialize_guard Instance_HandleDocumentLoad_guard
        Instance_HandleEvent_guard Instance_GetInstanceObject_guard Instance_ViewChanged_guard
        Printing_PrintPages_guard Printing_End_guard with_instance_found Printing_Begin_found)

theorem instance_callbacks_forward_witness:
  "Module_Get example_world = Some (Module_ctor\<lparr>current_instances_field := [1 \<mapsto> 10]\<rparr>) \<and>
   InstanceForPPInstance (Module_ctor\<lparr>current_instances_field := [1 \<mapsto> 10]\<rparr>) 1 = Some 10 \<and>
   Instance_HandleEvent example_plugin 1 3 example_world =
     (True, \<lparr>installed_module = Some (Module_ctor\<lparr>current_instances_field := [1 \<mapsto> 10]\<rparr>),
             plugin_state = 1, trace = [Ev_HandleEvent 10 3]\<rparr>) \<and>
   Instance_GetInstanceObject example_plugin 1 example_world =
     (Var_value 10,
      \<lparr>installed_module = Some (Module_ctor\<lparr>current_instances_field := [1 \<mapsto> 10]\<rparr>),
       plugin_state = 1, trace = [Ev_GetInstanceObject 10]\<rparr>) \<and>
   Printing_End example_plugin 1 example_world =
     \<lparr>installed_module = Some (Module_ctor\<lparr>current_instances_field := [1 \<mapsto> 10]\<rparr>),
      plugin_state = 1, trace = [Ev_PrintEnd 10]\<rparr> \<and>
   Printing_Begin example_plugin 1 \<lparr>format = 1\<rparr> example_world =
     (7, \<lparr>installed_module = Some (Module_ctor\<lparr>current_instances_field := [1 \<mapsto> 10]\<rparr>),
          plugin_state = 2,
          trace = [Ev_PrintBegin 10 \<lparr>format = 1\<rparr>, Ev_QuerySupportedPrintOutputFormats]\<rparr>)"
proof -
  let ?m = "Module_ctor\<lparr>current_instances_field := [1 \<mapsto> 10]\<rparr>"
  let ?fs = "\<lambda>index :: uint32_t. if index = 0 then 1 else if index = 1 then 2 else (0 :: nat)"
  have a: "Module_Get example_world = Some ?m"
    by (simp add: Module_Get_def example_world_def)
  have b: "InstanceForPPInstance ?m 1 = Some 10"
    by (simp add: InstanceForPPInstance_def)
  have in1: "\<exists>j. j < (2 :: uint32_t) \<and> ?fs j = 1"
    by (rule exI [of _ 0]) simp
  show ?thesis
    using a b in1
      instance_callbacks_forward [OF a b, of example_plugin _ _ _ _ 3 _ _ _ _ "\<lparr>format = 1\<rparr>"]
    by (simp add: invoke_def example_plugin_def example_world_def counted_def)
qed

subsection \<open>C3: the registry\<close>

text \<open>
  Claim C3. The module is a registry with trivial lookup: after any sequence of
  browser calls on a module whose map started empty, \<open>Module::InstanceForPPInstance\<close>
  returns, for every handle, exactly the object most recently stored under that handle
  (by \<open>Instance_New\<close>) and not since removed, and \<open>NULL\<close> when there is no such entry.
  Plugin code may call back into the callbacks while it runs; what is asked of it is
  that it leaves the module installed and reaches the map through the callbacks only.
\<close>

theorem InstanceForPPInstance_latest_entry:
  assumes "Module_Get w0 = Some m0"
    and "current_instances_field m0 = Map.empty"
    and "trace w0 = []"
    and "plugin_keeps_registry P"
  shows "\<exists>m. Module_Get (browser_calls P cs w0) = Some m \<and>
           (\<forall>h. InstanceForPPInstance m h = latest_entry (trace (browser_calls P cs w0)) h)"
proof -
  have "registry_follows_trace w0"
    using assms(1-3) by (simp add: registry_follows_trace_def InstanceForPPInstance_eq)
  with assms(4) have "registry_follows_trace (browser_calls P cs w0)"
    by (rule browser_calls_keep_registry)
  then show ?thesis
    by (simp add: registry_follows_trace_def)
qed

theorem InstanceForPPInstance_latest_entry_witness:
  "Module_Get fresh_world = Some Module_ctor \<and>
   current_instances_field Module_ctor = Map.empty \<and>
   trace fresh_world = [] \<and>
   plugin_keeps_registry example_plugin \<and>
   map_option (\<lambda>m. (InstanceForPPInstance m 1, InstanceForPPInstance m 2))
     (Module_Get (browser_calls example_plugin
        [Call_Instance_New 1, Call_Instance_HandleEvent 1 3, Call_Instance_New 2,
         Call_Instance_Delete 1] fresh_world)) = Some (None, Some 102) \<and>
   latest_entry (trace (browser_calls example_plugin
        [Call_Instance_New 1, Call_Instance_HandleEvent 1 3, Call_Instance_New 2,
         Call_Instance_Delete 1] fresh_world)) 1 = None \<and>
   latest_entry (trace (browser_calls example_plugin
        [Call_Instance_New 1, Call_Instance_HandleEvent 1 3, Call_Instance_New 2,
         Call_Instance_Delete 1] fresh_world)) 2 = Some 102 \<and>
   plugin_keeps_registry reregistering_plugin \<and>
   map_option (\<lambda>m. InstanceForPPInstance m 1)
     (Module_Get (browser_calls reregistering_plugin
        [Call_Instance_New 1, Call_Instance_Delete 1] fresh_world)) = Some (Some 101) \<and>
   latest_entry (trace (browser_calls reregistering_plugin
        [Call_Instance_New 1, Call_Instance_Delete 1] fresh_world)) 1 = Some 101"
proof -
  have a: "Module_Get fresh_world = Some Module_ctor"
    by (simp add: Module_Get_def fresh_world_def)
  have b: "current_instances_field Module_ctor = Map.empty"
    by (simp add: Module_ctor_def)
  have c: "trace fresh_world = []"
    by (simp add: fresh_world_def)
  note d = example_plugin_keeps_registry
  note e = reregistering_plugin_keeps_registry
  show ?thesis
    using a b c d e
      InstanceForPPInstance_latest_entry [OF a b c d, of
        "[Call_Instance_New 1, Call_Instance_HandleEvent 1 3, Call_Instance_New 2,
          Call_Instance_Delete 1]"]
      InstanceForPPInstance_latest_entry [OF a b c e, of
        "[Call_Instance_New 1, Call_Instance_Delete 1]"]
    by (simp add: callback_defs example_defs)
qed

subsection \<open>C4: the entry is erased before the object is destroyed\<close>

text \<open>
  Claim C4 says that, once \<open>Instance_Delete\<close> has erased the entry, a lookup of the
  handle returns \<open>NULL\<close> at every point of the object's destruction. That fails when
  the destructor registers the handle again: with the handle 1 registered for the
  object 10 and a destructor that calls \<open>Instance_New\<close> for the handle 1, the lookup
  returns the new object 101 in the world in which the destructor returns, which is
  the world in which \<open>Instance_Delete\<close> returns.
\<close>

theorem Instance_Delete_destructor_reregisters:
  "Module_Get example_world = Some (Module_ctor\<lparr>current_instances_field := [1 \<mapsto> 10]\<rparr>) \<and>
   current_instances_field (Module_ctor\<lparr>current_instances_field := [1 \<mapsto> 10]\<rparr>) 1 = Some 10 \<and>
   Instance_Delete reregistering_plugin 1 example_world =
     snd (Instance_dtor reregistering_plugin 10
            (example_world
               \<lparr>installed_module := Some (Module_ctor\<lparr>current_instances_field := Map.empty\<rparr>),
                trace := [Ev_delete 10, Ev_erase 1]\<rparr>)) \<and>
   Module_Get (Instance_Delete reregistering_plugin 1 example_world) =
     Some (Module_ctor\<lparr>current_instances_field := [1 \<mapsto> 101]\<rparr>) \<and>
   InstanceForPPInstance (Module_ctor\<lparr>current_instances_field := [1 \<mapsto> 101]\<rparr>) 1 = Some 101 \<and>
   trace (Instance_Delete reregistering_plugin 1 example_world) =
     [Ev_store 1 101, Ev_CreateInstance 1, Ev_delete 10, Ev_erase 1]"
  by (simp add: callback_defs example_defs)

text \<open>
  Claim C4, amended. In \<open>Instance_Delete\<close>, for a handle present in the map, the
  entry is erased before the instance object is destroyed: the destructor is entered
  in a world in which a lookup of the handle returns \<open>NULL\<close> and in which the erasure
  precedes the destruction in the trace. \<open>Instance_Delete\<close> writes nothing after that:
  it returns in the world in which the destructor returns. So the lookup returns \<open>NULL\<close>
  while the object is destroyed and afterwards as long as the destructor leaves the
  module as it found it; a destructor that calls back can register the handle again.
\<close>

theorem Instance_Delete_erases_before_destroying:
  assumes "Module_Get w = Some m" and "current_instances_field m instance = Some obj"
  shows "let erased = m\<lparr>current_instances_field := (current_instances_field m)(instance := None)\<rparr>;
             w1 = w\<lparr>installed_module := Some erased,
                    trace := Ev_delete obj # Ev_erase instance # trace w\<rparr>
         in InstanceForPPInstance erased instance = None \<and>
            Module_Get w1 = Some erased \<and>
            Instance_Delete P instance w = snd (Instance_dtor P obj w1) \<and>
            (Module_Get (snd (Instance_dtor P obj w1)) = Module_Get w1 \<longrightarrow>
               Module_Get (Instance_Delete P instance w) = Some erased)"
  using assms
  by (simp add: Let_def Instance_Delete_def InstanceForPPInstance_def write_instances_def
        invoke_def Module_Get_def)

theorem Instance_Delete_erases_before_destroying_witness:
  "Module_Get example_world = Some (Module_ctor\<lparr>current_instances_field := [1 \<mapsto> 10]\<rparr>) \<and>
   current_instances_field (Module_ctor\<lparr>current_instances_field := [1 \<mapsto> 10]\<rparr>) 1 = Some 10 \<and>
   plugin_state (Instance_Delete probe_plugin 1 example_world) = 1 \<and>
   trace (Instance_Delete probe_plugin 1 example_world) = [Ev_delete 10, Ev_erase 1] \<and>
   map_option (\<lambda>m. InstanceForPPInstance m 1)
     (Module_Get (Instance_Delete probe_plugin 1 example_world)) = Some None"
proof -
  let ?m = "Module_ctor\<lparr>current_instances_field := [1 \<mapsto> 10]\<rparr>"
  have a: "Module_Get example_world = Some ?m"
    by (simp add: Module_Get_def example_world_def)
  have b: "current_instances_field ?m 1 = Some 10"
    by simp
  show ?thesis
    using a b Instance_Delete_erases_before_destroying [OF a b, of probe_plugin]
    by (simp add: Let_def probe_plugin_def example_plugin_def example_world_def
          Module_Get_def InstanceForPPInstance_def)
qed

subsection \<open>C5: no module, no work\<close>

text \<open>
  Claim C5. Every callback of the \<open>PPP_Instance\<close> and \<open>PPP_Printing\<close> tables goes
  through the module singleton: if \<open>Module::Get()\<close> returns \<open>NULL\<close>, the callback calls
  no plugin code and writes nothing (the world, trace included, is as before) and
  returns its failure value.
\<close>

theorem callbacks_without_module:
  "Module_Get w = None \<Longrightarrow> browser_call P c w = (failure_value c, w)"
  by (cases c)
     (simp_all add: Instance_New_def Instance_Delete_def Instance_Initialize_def
        Instance_HandleDocumentLoad_def Instance_HandleEvent_def Instance_GetInstanceObject_def
        Instance_ViewChanged_def Printing_QuerySupportedFormats_def Printing_Begin_def
        Printing_PrintPages_def Printing_End_def)

theorem callbacks_without_module_witness:
  "Module_Get no_module_world = None \<and>
   browser_call example_plugin (Call_Printing_Begin 1 \<lparr>format = 1\<rparr>) no_module_world
     = (Ret_int32 0, no_module_world) \<and>
   browser_call example_plugin (Call_Printing_QuerySupportedFormats 3) no_module_world
     = (Ret_formats None 0, no_module_world) \<and>
   browser_call example_plugin (Call_Instance_New 1) no_module_world
     = (Ret_bool False, no_module_world)"
proof -
  have none: "Module_Get no_module_world = None"
    by (simp add: Module_Get_def no_module_world_def)
  show ?thesis
    using none
      callbacks_without_module [OF none, of example_plugin "Call_Printing_Begin 1 \<lparr>format = 1\<rparr>"]
      callbacks_without_module [OF none, of example_plugin "Call_Printing_QuerySupportedFormats 3"]
      callbacks_without_module [OF none, of example_plugin "Call_Instance_New 1"]
    by simp
qed

subsection \<open>C6: browser interfaces\<close>

text \<open>
  Claim C6. \<open>Module::GetBrowserInterface\<close> is a pass-through: for every interface
  name it returns exactly what the browser-supplied lookup function
  \<open>get_browser_interface_\<close> returns for that name.
\<close>

theorem GetBrowserInterface_pass_through:
  "get_browser_interface_field this = Some f \<Longrightarrow>
   GetBrowserInterface this interface_name = Inr (f interface_name)"
  by (simp add: GetBrowserInterface_def)

theorem GetBrowserInterface_pass_through_witness:
  "get_browser_interface_field
     (Module_ctor\<lparr>get_browser_interface_field := Some browser_without_core\<rparr>)
     = Some browser_without_core \<and>
   GetBrowserInterface
     (Module_ctor\<lparr>get_browser_interface_field := Some browser_without_core\<rparr>) ''PPB_Var;0.1''
     = Inr (Some 7) \<and>
   GetBrowserInterface
     (Module_ctor\<lparr>get_browser_interface_field := Some browser_without_core\<rparr>) ''PPB_Core;0.1''
     = Inr None"
proof -
  have f: "get_browser_interface_field
             (Module_ctor\<lparr>get_browser_interface_field := Some browser_without_core\<rparr>)
           = Some browser_without_core"
    by simp
  show ?thesis
    using f
      GetBrowserInterface_pass_through [OF f, of "''PPB_Var;0.1''"]
      GetBrowserInterface_pass_through [OF f, of "''PPB_Core;0.1''"]
    by (simp add: browser_without_core_def)
qed

subsection \<open>C8: \<open>Instance_New\<close>\<close>

text \<open>
  Claim C8 says that the map is unchanged whenever \<open>Instance_New\<close> returns \<open>false\<close>.
  That fails when \<open>CreateInstance\<close> calls back before it returns \<open>NULL\<close>: with a
  \<open>CreateInstance\<close> that registers the handle 2 by a call of \<open>Instance_New\<close> and then
  returns \<open>NULL\<close>, \<open>Instance_New\<close> for the handle 3 returns \<open>false\<close> and the handle 2,
  which was not in the map before, is in it afterwards.
\<close>

theorem Instance_New_false_with_map_changed:
  "Module_Get example_world = Some (Module_ctor\<lparr>current_instances_field := [1 \<mapsto> 10]\<rparr>) \<and>
   InstanceForPPInstance (Module_ctor\<lparr>current_instances_field := [1 \<mapsto> 10]\<rparr>) 2 = None \<and>
   fst (Instance_New refusing_plugin 3 example_world) = False \<and>
   Module_Get (snd (Instance_New refusing_plugin 3 example_world)) =
     Some (Module_ctor\<lparr>current_instances_field := [1 \<mapsto> 10, 2 \<mapsto> 102]\<rparr>) \<and>
   InstanceForPPInstance (Module_ctor\<lparr>current_instances_field := [1 \<mapsto> 10, 2 \<mapsto> 102]\<rparr>) 2
     = Some 102"
  by (simp add: callback_defs example_defs)

text \<open>
  Claim C8, amended. \<open>Instance_New\<close> returns \<open>true\<close> if and only if \<open>Module::Get()\<close>
  is non-null and \<open>CreateInstance\<close> returns a non-null object; in that case the map
  afterwards is the map as \<open>CreateInstance\<close> left it with the handle mapped to that
  object. When it returns \<open>false\<close>, \<open>Instance_New\<close> itself has written nothing: with
  \<open>Module::Get()\<close> null the world is unchanged, and with \<open>CreateInstance\<close> returning
  \<open>NULL\<close> the world is the one in which \<open>CreateInstance\<close> returned, so the module and
  its map are unchanged if \<open>CreateInstance\<close> left them alone.
\<close>

theorem Instance_New_atomic:
  "let created = invoke (Ev_CreateInstance instance) (CreateInstance P instance) w
   in (fst (Instance_New P instance w) \<longleftrightarrow>
         (\<exists>m obj. Module_Get w = Some m \<and> fst created = Some obj)) \<and>
      (\<forall>m obj. Module_Get w = Some m \<and> fst created = Some obj \<longrightarrow>
         map_option current_instances_field (Module_Get (snd (Instance_New P instance w))) =
           map_option (\<lambda>m1. (current_instances_field m1)(instance \<mapsto> obj))
             (Module_Get (snd created))) \<and>
      (Module_Get w = None \<longrightarrow> snd (Instance_New P instance w) = w) \<and>
      (\<forall>m. Module_Get w = Some m \<and> fst created = None \<longrightarrow>
         snd (Instance_New P instance w) = snd created) \<and>
      (\<not> fst (Instance_New P instance w) \<and> Module_Get (snd created) = Module_Get w \<longrightarrow>
         Module_Get (snd (Instance_New P instance w)) = Module_Get w)"
  by (cases "invoke (Ev_CreateInstance instance) (CreateInstance P instance) w")
     (auto simp: Let_def Instance_New_def write_instances_def Module_Get_def
           option.map_comp comp_def split: option.splits)

theorem Instance_New_atomic_witness:
  "fst (Instance_New example_plugin 2 example_world) \<and>
   map_option current_instances_field
     (Module_Get (snd (Instance_New example_plugin 2 example_world))) = Some [1 \<mapsto> 10, 2 \<mapsto> 102] \<and>
   \<not> fst (Instance_New example_plugin 0 example_world) \<and>
   Module_Get (snd (Instance_New example_plugin 0 example_world)) = Module_Get example_world \<and>
   snd (Instance_New example_plugin 1 no_module_world) = no_module_world"
  using Instance_New_atomic [of 2 example_plugin example_world]
    Instance_New_atomic [of 0 example_plugin example_world]
    Instance_New_atomic [of 1 example_plugin no_module_world]
  by (simp add: callback_defs example_defs)

subsection \<open>C9: \<open>Printing_Begin\<close> and the supported formats\<close>

text \<open>
  Claim C9. For a registered handle, \<open>Printing_Begin\<close> calls the instance's
  \<open>PrintBegin\<close>, and returns its result, only if \<open>print_settings->format\<close> occurs among
  the \<open>format_count\<close> elements of the array that \<open>QuerySupportedPrintOutputFormats\<close>
  returned; if the format is absent, or the array is \<open>NULL\<close>, it returns 0 and the only
  call it has made is the query: it returns in the world in which the query returned.
\<close>

theorem Printing_Begin_filters_by_format:
  assumes "Module_Get w = Some m"
    and "InstanceForPPInstance m pp_instance = Some obj"
    and "invoke Ev_QuerySupportedPrintOutputFormats (QuerySupportedPrintOutputFormats P 0) w
           = ((formats, format_count), w1)"
  shows "(formats = None \<longrightarrow> Printing_Begin P pp_instance print_settings w = (0, w1)) \<and>
         (\<forall>fs. formats = Some fs \<and> (\<exists>j. j < format_count \<and> fs j = format print_settings) \<longrightarrow>
            Printing_Begin P pp_instance print_settings w =
              invoke (Ev_PrintBegin obj print_settings) (PrintBegin P obj print_settings) w1) \<and>
         (\<forall>fs. formats = Some fs \<and> \<not> (\<exists>j. j < format_count \<and> fs j = format print_settings) \<longrightarrow>
            Printing_Begin P pp_instance print_settings w = (0, w1)) \<and>
         w1 = snd (QuerySupportedPrintOutputFormats P 0
                     (w\<lparr>trace := Ev_QuerySupportedPrintOutputFormats # trace w\<rparr>))"
proof -
  have "w1 = snd (QuerySupportedPrintOutputFormats P 0
                    (w\<lparr>trace := Ev_QuerySupportedPrintOutputFormats # trace w\<rparr>))"
    using assms(3) by (simp add: invoke_def)
  then show ?thesis
    using assms(3) by (cases formats) (auto simp: Printing_Begin_found [OF assms(1,2)])
qed

theorem Printing_Begin_filters_by_format_witness:
  "Module_Get example_world = Some (Module_ctor\<lparr>current_instances_field := [1 \<mapsto> 10]\<rparr>) \<and>
   InstanceForPPInstance (Module_ctor\<lparr>current_instances_field := [1 \<mapsto> 10]\<rparr>) 1 = Some 10 \<and>
   Printing_Begin example_plugin 1 \<lparr>format = 2\<rparr> example_world =
     (7, \<lparr>installed_module = Some (Module_ctor\<lparr>current_instances_field := [1 \<mapsto> 10]\<rparr>),
          plugin_state = 2,
          trace = [Ev_PrintBegin 10 \<lparr>format = 2\<rparr>, Ev_QuerySupportedPrintOutputFormats]\<rparr>) \<and>
   Printing_Begin example_plugin 1 \<lparr>format = 5\<rparr> example_world =
     (0, \<lparr>installed_module = Some (Module_ctor\<lparr>current_instances_field := [1 \<mapsto> 10]\<rparr>),
          plugin_state = 1,
          trace = [Ev_QuerySupportedPrintOutputFormats]\<rparr>)"
proof -
  let ?m = "Module_ctor\<lparr>current_instances_field := [1 \<mapsto> 10]\<rparr>"
  let ?w1 = "\<lparr>installed_module = Some ?m, plugin_state = Suc 0,
              trace = [Ev_QuerySupportedPrintOutputFormats]\<rparr> :: nat world"
  let ?fs = "\<lambda>index :: uint32_t. if index = 0 then 1 else if index = 1 then 2 else (0 :: nat)"
  have a: "Module_Get example_world = Some ?m"
    by (simp add: Module_Get_def example_world_def)
  have b: "InstanceForPPInstance ?m 1 = Some 10"
    by (simp add: InstanceForPPInstance_def)
  have c: "invoke Ev_QuerySupportedPrintOutputFormats
             (QuerySupportedPrintOutputFormats example_plugin 0) example_world
           = ((Some ?fs, 2), ?w1)"
    by (simp add: invoke_def example_plugin_def example_world_def counted_def)
  have in2: "\<exists>j. j < (2 :: uint32_t) \<and> ?fs j = 2"
    by (rule exI [of _ 1]) simp
  have out5: "\<not> (\<exists>j. j < (2 :: uint32_t) \<and> ?fs j = 5)"
    by simp
  have found: "Printing_Begin example_plugin 1 \<lparr>format = 2\<rparr> example_world =
      invoke (Ev_PrintBegin 10 \<lparr>format = 2\<rparr>) (PrintBegin example_plugin 10 \<lparr>format = 2\<rparr>) ?w1"
    using Printing_Begin_filters_by_format [OF a b c, of "\<lparr>format = 2\<rparr>"] in2
    by (simp del: One_nat_def)
  have absent: "Printing_Begin example_plugin 1 \<lparr>format = 5\<rparr> example_world = (0, ?w1)"
    using Printing_Begin_filters_by_format [OF a b c, of "\<lparr>format = 5\<rparr>"] out5
    by (simp del: One_nat_def)
  have begun: "invoke (Ev_PrintBegin 10 \<lparr>format = 2\<rparr>)
                 (PrintBegin example_plugin 10 \<lparr>format = 2\<rparr>) ?w1 =
      (7, \<lparr>installed_module = Some ?m, plugin_state = 2,
           trace = [Ev_PrintBegin 10 \<lparr>format = 2\<rparr>, Ev_QuerySupportedPrintOutputFormats]\<rparr>)"
    by (simp add: invoke_def example_plugin_def counted_def)
  show ?thesis
    using a b by (simp add: found absent begun)
qed

subsection \<open>C10: \<open>InternalInit\<close> without the core interface\<close>

text \<open>
  Claim C10. \<open>Module::InternalInit\<close> returns \<open>false\<close>, and never calls \<open>Init()\<close>, when
  the browser's answer for \<open>PPB_CORE_INTERFACE\<close> is \<open>NULL\<close>; even then the fields
  \<open>pp_module_\<close> and \<open>get_browser_interface_\<close> hold the supplied arguments: the module is
  not rolled back.
\<close>

theorem InternalInit_no_core:
  "g (PPB_CORE_INTERFACE N) = None \<Longrightarrow>
   InternalInit N P pp_mod (Some g) this w =
     Inr (False,
          this\<lparr>pp_module_field := pp_mod, get_browser_interface_field := Some g,
               core_field := None\<rparr>,
          w)"
  by (simp add: InternalInit_def GetBrowserInterface_def)

theorem InternalInit_no_core_witness:
  "browser_without_core (PPB_CORE_INTERFACE example_names) = None \<and>
   InternalInit example_names example_plugin 5 (Some browser_without_core) Module_ctor fresh_world =
     Inr (False,
          \<lparr>pp_module_field = 5, get_browser_interface_field = Some browser_without_core,
           core_field = None, current_instances_field = Map.empty\<rparr>,
          fresh_world)"
proof -
  have no_core: "browser_without_core (PPB_CORE_INTERFACE example_names) = None"
    by (simp add: browser_without_core_def example_names_def)
  show ?thesis
    using no_core
      InternalInit_no_core [of browser_without_core example_names example_plugin 5
        Module_ctor fresh_world]
    by (simp add: Module_ctor_def)
qed

end
